theory Spec2Isabelle
  imports Main
begin

section \<open>Python values\<close>

text \<open>
  The values the web-client calls handle are what \<^verbatim>\<open>json.loads\<close> produces and what
  \<^verbatim>\<open>json.dumps\<close> accepts: \<^verbatim>\<open>None\<close>, booleans, integers, strings, lists and
  dictionaries with string keys. A dictionary is the association list of its items,
  read with \<open>map_of\<close>; a Python dictionary holds a key once. Floating-point numbers are
  outside the model.
\<close>

datatype pyval =
    PNone
  | PBool bool
  | PInt int
  | PStr string
  | PList "pyval list"
  | PDict "(string \<times> pyval) list"

text \<open>Python's truth value of an object, as \<^verbatim>\<open>not x\<close> and \<^verbatim>\<open>if x\<close> read it.\<close>

fun truthy :: "pyval \<Rightarrow> bool" where
  "truthy PNone = False"
| "truthy (PBool b) = b"
| "truthy (PInt i) = (i \<noteq> 0)"
| "truthy (PStr s) = (s \<noteq> [])"
| "truthy (PList xs) = (xs \<noteq> [])"
| "truthy (PDict d) = (d \<noteq> [])"

text \<open>
  Python's \<^verbatim>\<open>==\<close>. A boolean is an integer (\<^verbatim>\<open>False == 0\<close>, \<^verbatim>\<open>True == 1\<close>), lists are
  equal when they have the same length and equal elements in order, dictionaries when
  they have the same keys with equal values; values of different kinds are unequal.
\<close>

lemma size_map_of:
  "map_of d k = Some v \<Longrightarrow> size v < Suc (size_list (size_prod (\<lambda>x. 0) size) d)"
  by (induction d) (auto split: if_splits)

lemma size_list_member:
  "x \<in> set xs \<Longrightarrow> size x < Suc (size_list size xs)"
  by (induction xs) auto

function (sequential) py_eq :: "pyval \<Rightarrow> pyval \<Rightarrow> bool" where
  "py_eq PNone PNone = True"
| "py_eq (PBool a) (PBool b) = (a = b)"
| "py_eq (PBool a) (PInt j) = ((if a then 1 else 0) = j)"
| "py_eq (PInt i) (PBool b) = (i = (if b then 1 else 0))"
| "py_eq (PInt i) (PInt j) = (i = j)"
| "py_eq (PStr s) (PStr t) = (s = t)"
| "py_eq (PList xs) (PList ys) = list_all2 py_eq xs ys"
| "py_eq (PDict d) (PDict e) =
     (list_all (\<lambda>k. map_of d k \<noteq> None) (map fst e) \<and>
      list_all (\<lambda>k. case map_of d k of
                       None \<Rightarrow> False
                     | Some u \<Rightarrow> (case map_of e k of None \<Rightarrow> False | Some w \<Rightarrow> py_eq u w))
        (map fst d))"
| "py_eq _ _ = False"
  by pat_completeness auto
termination
  by (relation "measure (\<lambda>(a, b). size a)") (auto simp: size_map_of size_list_member)

text \<open>\<^verbatim>\<open>a != b\<close> on these values is the negation of \<^verbatim>\<open>a == b\<close>.\<close>

definition py_ne :: "pyval \<Rightarrow> pyval \<Rightarrow> bool" where
  "py_ne a b = (\<not> py_eq a b)"

section \<open>Exceptions\<close>

text \<open>
  \<^verbatim>\<open>CallFailure(message, callname)\<close> and \<^verbatim>\<open>ValidationException(message)\<close> are the
  exceptions of \<^verbatim>\<open>gmusicapi/exceptions.py\<close>; \<^verbatim>\<open>TypeError\<close> and \<^verbatim>\<open>KeyError\<close> are the
  interpreter's own, raised by \<^verbatim>\<open>in\<close>, by subscription and by iteration.
\<close>

datatype py_error =
    CallFailure string string
  | ValidationException string
  | TypeError
  | KeyError string

text \<open>\<^verbatim>\<open>CallFailure.__str__\<close>: \<^verbatim>\<open>"%s: %s" % (self.callname, Exception.__str__(self))\<close>.\<close>

fun CallFailure_str :: "py_error \<Rightarrow> string option" where
  "CallFailure_str (CallFailure message callname) = Some (callname @ '': '' @ message)"
| "CallFailure_str _ = None"

section \<open>Call descriptors\<close>

text \<open>The classes of \<^verbatim>\<open>webclient.py\<close>, and \<^verbatim>\<open>cls.__name__\<close> for each.\<close>

datatype wc_call =
    WcCall
  | AddPlaylist
  | AddToPlaylist
  | ChangePlaylistName
  | ChangePlaylistOrder
  | DeletePlaylist
  | DeleteSongs
  | GetLibrarySongs
  | ReportBadSongMatch

fun class_name :: "wc_call \<Rightarrow> string" where
  "class_name WcCall = ''WcCall''"
| "class_name AddPlaylist = ''AddPlaylist''"
| "class_name AddToPlaylist = ''AddToPlaylist''"
| "class_name ChangePlaylistName = ''ChangePlaylistName''"
| "class_name ChangePlaylistOrder = ''ChangePlaylistOrder''"
| "class_name DeletePlaylist = ''DeletePlaylist''"
| "class_name DeleteSongs = ''DeleteSongs''"
| "class_name GetLibrarySongs = ''GetLibrarySongs''"
| "class_name ReportBadSongMatch = ''ReportBadSongMatch''"

section \<open>The success check\<close>

text \<open>\<^verbatim>\<open>k in s\<close> for two strings: \<open>k\<close> occurs in \<open>s\<close> as a substring.\<close>

fun str_contains :: "string \<Rightarrow> string \<Rightarrow> bool" where
  "str_contains k [] = (k = [])"
| "str_contains k (c # s) = (take (length k) (c # s) = k \<or> str_contains k s)"

text \<open>
  \<^verbatim>\<open>k in x\<close> for a string \<open>k\<close>: key membership in a dictionary, element membership
  (by \<^verbatim>\<open>==\<close>) in a list, substring test in a string; \<^verbatim>\<open>None\<close>, booleans and integers
  are not iterable.
\<close>

fun py_in :: "string \<Rightarrow> pyval \<Rightarrow> py_error + bool" where
  "py_in k (PDict d) = Inr (map_of d k \<noteq> None)"
| "py_in k (PList xs) = Inr (list_ex (\<lambda>x. py_eq x (PStr k)) xs)"
| "py_in k (PStr s) = Inr (str_contains k s)"
| "py_in k _ = Inl TypeError"

text \<open>
  \<^verbatim>\<open>x[k]\<close> for a string \<open>k\<close>: the value of the key in a dictionary, \<^verbatim>\<open>KeyError\<close> when it
  is missing; every other kind of value refuses a string subscript.
\<close>

fun py_getitem :: "pyval \<Rightarrow> string \<Rightarrow> py_error + pyval" where
  "py_getitem (PDict d) k = (case map_of d k of None \<Rightarrow> Inl (KeyError k) | Some v \<Rightarrow> Inr v)"
| "py_getitem _ k = Inl TypeError"

text \<open>
  The message of \<^verbatim>\<open>WcCall.check_success\<close>: four adjacent string literals, which Python
  concatenates as they are written (with no space between them).
\<close>

definition failure_message :: string where
  "failure_message =
     ''the server reported failure. This is usually'' @
     ''caused by bad arguments, but can also happen if requests'' @
     ''are made too quickly (eg creating a playlist then'' @
     ''modifying it before the server has created it)''"

text \<open>
  \<^verbatim>\<open>WcCall.check_success(cls, res)\<close>:
  \<^verbatim>\<open>if 'success' in res and not res['success']: raise CallFailure(..., cls.__name__)\<close>.
  The conjunction is evaluated left to right, and the method returns \<^verbatim>\<open>None\<close>.
\<close>

definition check_success :: "wc_call \<Rightarrow> pyval \<Rightarrow> py_error + unit" where
  "check_success cls res =
     (case py_in ''success'' res of
        Inl e \<Rightarrow> Inl e
      | Inr False \<Rightarrow> Inr ()
      | Inr True \<Rightarrow>
          (case py_getitem res ''success'' of
             Inl e \<Rightarrow> Inl e
           | Inr v \<Rightarrow>
               if \<not> truthy v then Inl (CallFailure failure_message (class_name cls))
               else Inr ()))"

section \<open>The literal response of ReportBadSongMatch\<close>

text \<open>
  \<^verbatim>\<open>repr\<close> of the values a response literal is made of: \<^verbatim>\<open>None\<close>, booleans, integers
  (in decimal, as an \<^verbatim>\<open>int\<close> prints) and lists (elements separated by a comma and a
  space). The literal of the source holds no string and no dictionary, and their
  \<^verbatim>\<open>repr\<close> is left out.
\<close>

fun nat_repr :: "nat \<Rightarrow> string" where
  "nat_repr n =
     (if n < 10 then [''0123456789'' ! n]
      else nat_repr (n div 10) @ [''0123456789'' ! (n mod 10)])"

definition int_repr :: "int \<Rightarrow> string" where
  "int_repr i = (if i < 0 then ''-'' @ nat_repr (nat (- i)) else nat_repr (nat i))"

fun join :: "string \<Rightarrow> string list \<Rightarrow> string" where
  "join sep [] = []"
| "join sep [x] = x"
| "join sep (x # y # ys) = x @ sep @ join sep (y # ys)"

fun py_repr :: "pyval \<Rightarrow> string" where
  "py_repr PNone = ''None''"
| "py_repr (PBool b) = (if b then ''True'' else ''False'')"
| "py_repr (PInt i) = int_repr i"
| "py_repr (PList xs) = ''['' @ join '', '' (map py_repr xs) @ '']''"

text \<open>\<^verbatim>\<open>expected_response = [[0], []]\<close>, the class attribute of \<^verbatim>\<open>ReportBadSongMatch\<close>.\<close>

definition expected_response :: pyval where
  "expected_response = PList [PList [PInt 0], PList []]"

text \<open>
  \<^verbatim>\<open>ReportBadSongMatch.validate(cls, res)\<close>:
  \<^verbatim>\<open>if res != cls.expected_response: raise ValidationException("response != %r" % cls.expected_response)\<close>.
  The method has no \<^verbatim>\<open>return\<close>: when it does not raise, it returns \<^verbatim>\<open>None\<close>.
\<close>

definition ReportBadSongMatch_validate :: "pyval \<Rightarrow> py_error + pyval" where
  "ReportBadSongMatch_validate res =
     (if py_ne res expected_response
      then Inl (ValidationException (''response != '' @ py_repr expected_response))
      else Inr PNone)"

section \<open>Request bodies\<close>

text \<open>
  The builders are static methods. The one name they read from their surroundings is
  the module \<^verbatim>\<open>json\<close>, for \<^verbatim>\<open>json.dumps\<close>, which belongs to the standard library and
  is taken as it is: a function from the value to its serialization. The record holds
  it beside the module's own global strings, which a builder could read as well.
\<close>

record ambient =
  json_dumps :: "pyval \<Rightarrow> string"
  base_url :: string
  service_url :: string

text \<open>
  A parameter with a default is an optional argument of the model: \<open>None\<close> when the
  caller leaves it out, and the parameter then holds its default.
\<close>

definition with_default :: "pyval \<Rightarrow> pyval option \<Rightarrow> pyval" where
  "with_default dflt arg = (case arg of None \<Rightarrow> dflt | Some v \<Rightarrow> v)"

text \<open>\<^verbatim>\<open>x is None\<close>.\<close>

definition is_None :: "pyval \<Rightarrow> bool" where
  "is_None x = (x = PNone)"

text \<open>
  The elements a \<^verbatim>\<open>for\<close> loop draws from a value: those of a list, the characters of
  a string, the keys of a dictionary; the other values are not iterable.
\<close>

fun py_iter :: "pyval \<Rightarrow> py_error + pyval list" where
  "py_iter (PList xs) = Inr xs"
| "py_iter (PStr s) = Inr (map (\<lambda>c. PStr [c]) s)"
| "py_iter (PDict d) = Inr (map PStr (map fst d))"
| "py_iter _ = Inl TypeError"

text \<open>\<^verbatim>\<open>AddPlaylist.dynamic_data(title)\<close>.\<close>

definition AddPlaylist_dynamic_data :: "'a ambient_scheme \<Rightarrow> pyval \<Rightarrow> pyval" where
  "AddPlaylist_dynamic_data env title =
     PDict [(''json'', PStr (json_dumps env (PDict [(''title'', title)])))]"

text \<open>
  \<^verbatim>\<open>AddToPlaylist.dynamic_data(playlist_id, song_ids)\<close>; the list comprehension iterates
  over \<^verbatim>\<open>song_ids\<close>.
\<close>

definition AddToPlaylist_dynamic_data ::
  "'a ambient_scheme \<Rightarrow> pyval \<Rightarrow> pyval \<Rightarrow> py_error + pyval" where
  "AddToPlaylist_dynamic_data env playlist_id song_ids =
     (case py_iter song_ids of
        Inl e \<Rightarrow> Inl e
      | Inr sids \<Rightarrow>
          let song_refs = map (\<lambda>sid. PDict [(''id'', sid), (''type'', PInt 1)]) sids
          in Inr (PDict [(''json'', PStr (json_dumps env
                   (PDict [(''playlistId'', playlist_id), (''songRefs'', PList song_refs)])))]))"

text \<open>\<^verbatim>\<open>ChangePlaylistName.dynamic_data(playlist_id, new_name)\<close>.\<close>

definition ChangePlaylistName_dynamic_data ::
  "'a ambient_scheme \<Rightarrow> pyval \<Rightarrow> pyval \<Rightarrow> pyval" where
  "ChangePlaylistName_dynamic_data env playlist_id new_name =
     PDict [(''json'', PStr (json_dumps env
       (PDict [(''playlistId'', playlist_id), (''playlistName'', new_name)])))]"

text \<open>
  \<^verbatim>\<open>ChangePlaylistOrder.dynamic_data(playlist_id, song_ids_moving, entry_ids_moving,
  after_entry_id=None, before_entry_id=None)\<close>: an anchor that is \<^verbatim>\<open>None\<close> becomes the
  empty string.
\<close>

definition ChangePlaylistOrder_dynamic_data ::
  "'a ambient_scheme \<Rightarrow> pyval \<Rightarrow> pyval \<Rightarrow> pyval \<Rightarrow> pyval option \<Rightarrow> pyval option \<Rightarrow> pyval" where
  "ChangePlaylistOrder_dynamic_data env playlist_id song_ids_moving entry_ids_moving
       after_arg before_arg =
     (let after_entry_id = with_default PNone after_arg;
          before_entry_id = with_default PNone before_arg;
          after_entry_id = (if is_None after_entry_id then PStr [] else after_entry_id);
          before_entry_id = (if is_None before_entry_id then PStr [] else before_entry_id)
      in PDict [(''json'', PStr (json_dumps env
           (PDict [(''playlistId'', playlist_id),
                   (''movedSongIds'', song_ids_moving),
                   (''movedEntryIds'', entry_ids_moving),
                   (''afterEntryId'', after_entry_id),
                   (''beforeEntryId'', before_entry_id)])))])"

text \<open>\<^verbatim>\<open>DeletePlaylist.dynamic_data(playlist_id)\<close>.\<close>

definition DeletePlaylist_dynamic_data :: "'a ambient_scheme \<Rightarrow> pyval \<Rightarrow> pyval" where
  "DeletePlaylist_dynamic_data env playlist_id =
     PDict [(''json'', PStr (json_dumps env (PDict [(''id'', playlist_id)])))]"

text \<open>\<^verbatim>\<open>DeleteSongs.dynamic_data(song_ids, playlist_id='all', entry_ids=None)\<close>.\<close>

definition DeleteSongs_dynamic_data ::
  "'a ambient_scheme \<Rightarrow> pyval \<Rightarrow> pyval option \<Rightarrow> pyval option \<Rightarrow> pyval" where
  "DeleteSongs_dynamic_data env song_ids playlist_arg entry_arg =
     (let playlist_id = with_default (PStr ''all'') playlist_arg;
          entry_ids = with_default PNone entry_arg
      in PDict [(''json'', PStr (json_dumps env
           (PDict [(''songIds'', song_ids), (''entryIds'', entry_ids),
                   (''listId'', playlist_id)])))])"

text \<open>
  \<^verbatim>\<open>GetLibrarySongs.dynamic_data(cont_token=None)\<close>: \<^verbatim>\<open>if not cont_token: req = {}\<close>,
  \<^verbatim>\<open>else: req = {"continuationToken": cont_token}\<close>.
\<close>

definition GetLibrarySongs_dynamic_data :: "'a ambient_scheme \<Rightarrow> pyval option \<Rightarrow> pyval" where
  "GetLibrarySongs_dynamic_data env cont_arg =
     (let cont_token = with_default PNone cont_arg;
          req = (if \<not> truthy cont_token then PDict []
                 else PDict [(''continuationToken'', cont_token)])
      in PDict [(''json'', PStr (json_dumps env req))])"

text \<open>
  \<^verbatim>\<open>ReportBadSongMatch.dynamic_data(song_ids)\<close> returns the serialization itself, not a
  dictionary that holds it.
\<close>

definition ReportBadSongMatch_dynamic_data :: "'a ambient_scheme \<Rightarrow> pyval \<Rightarrow> pyval" where
  "ReportBadSongMatch_dynamic_data env song_ids =
     PStr (json_dumps env (PList [PList [PStr [], PInt 1], PList [song_ids]]))"

section \<open>The module's own environment\<close>

text \<open>
  \<^verbatim>\<open>json.dumps\<close> with its default options, on the values of the model: separators
  \<^verbatim>\<open>', '\<close> and \<^verbatim>\<open>': '\<close>, and strings escaped to ASCII (a string is read as a sequence
  of code points below 256). The items of a dictionary are written in the order of the
  association list. The theorems below hold for every serializer; this one gives the
  concrete instances a serializer to run.
\<close>

definition hex_digit :: "nat \<Rightarrow> char" where
  "hex_digit n = ''0123456789abcdef'' ! n"

definition json_escape_char :: "char \<Rightarrow> string" where
  "json_escape_char c =
     (if c = CHR 0x22 then [CHR 0x5C, CHR 0x22]
      else if c = CHR 0x5C then [CHR 0x5C, CHR 0x5C]
      else if c = CHR 0x0A then [CHR 0x5C, CHR ''n'']
      else if c = CHR 0x0D then [CHR 0x5C, CHR ''r'']
      else if c = CHR 0x09 then [CHR 0x5C, CHR ''t'']
      else if c = CHR 0x08 then [CHR 0x5C, CHR ''b'']
      else if c = CHR 0x0C then [CHR 0x5C, CHR ''f'']
      else if (of_char c :: nat) < 32 \<or> 126 < (of_char c :: nat)
        then [CHR 0x5C, CHR ''u'', CHR ''0'', CHR ''0'',
              hex_digit (of_char c div 16), hex_digit (of_char c mod 16)]
      else [c])"

definition json_string :: "string \<Rightarrow> string" where
  "json_string s = [CHR 0x22] @ concat (map json_escape_char s) @ [CHR 0x22]"

fun py_json_dumps :: "pyval \<Rightarrow> string" where
  "py_json_dumps PNone = ''null''"
| "py_json_dumps (PBool b) = (if b then ''true'' else ''false'')"
| "py_json_dumps (PInt i) = int_repr i"
| "py_json_dumps (PStr s) = json_string s"
| "py_json_dumps (PList xs) = ''['' @ join '', '' (map py_json_dumps xs) @ '']''"
| "py_json_dumps (PDict d) =
     ''{'' @ join '', '' (map (\<lambda>(k, v). json_string k @ '': '' @ py_json_dumps v) d) @ ''}''"

text \<open>
  The environment as the module sets it up: \<^verbatim>\<open>base_url\<close> and
  \<^verbatim>\<open>service_url = base_url + 'services/'\<close>.
\<close>

definition module_env :: ambient where
  "module_env =
     \<lparr>json_dumps = py_json_dumps,
      base_url = ''https://play.google.com/music/'',
      service_url = ''https://play.google.com/music/'' @ ''services/''\<rparr>"

section \<open>Response schemas and their validation\<close>

text \<open>
  Modelled from the spec: the type tags of a schema. The schemas of \<^verbatim>\<open>webclient.py\<close> are
  written for the library \<^verbatim>\<open>validictory\<close>, which is not part of the repository; the
  tags are the primitive ones its schemas use.
\<close>

datatype prim_type = TString | TBoolean | TInteger

text \<open>
  Modelled from the spec: the structural schema format. A schema is a primitive type
  tag, an array schema with one schema for every item, or an object schema: a list of
  declared properties (name, required, nested schema), in their declared order, and a
  flag that closes the object against undeclared properties.
\<close>

datatype schema =
    SPrim prim_type
  | SArray schema
  | SObject "(string \<times> bool \<times> schema) list" bool

text \<open>
  \<^verbatim>\<open>AddPlaylist._res_schema\<close>: three properties, each required (a property is required
  unless it says otherwise), and \<^verbatim>\<open>"additionalProperties": False\<close>.
\<close>

definition AddPlaylist_res_schema :: schema where
  "AddPlaylist_res_schema =
     SObject [(''id'', True, SPrim TString),
              (''title'', True, SPrim TString),
              (''success'', True, SPrim TBoolean)] True"

text \<open>Modelled from the spec: a value matches a primitive type tag.\<close>

fun has_type :: "pyval \<Rightarrow> prim_type \<Rightarrow> bool" where
  "has_type (PStr s) TString = True"
| "has_type (PBool b) TBoolean = True"
| "has_type (PInt i) TInteger = True"
| "has_type _ _ = False"

text \<open>
  Modelled from the spec: a value conforms to a schema. For an object schema, every
  declared property is present unless it is optional, the value of every present
  property conforms to its schema, and under closure every key of the value is
  declared; for an array schema every element conforms to the item schema.
\<close>

fun conforms :: "pyval \<Rightarrow> schema \<Rightarrow> bool" where
  "conforms v (SPrim t) = has_type v t"
| "conforms v (SArray s) = (case v of PList xs \<Rightarrow> (\<forall>x\<in>set xs. conforms x s) | _ \<Rightarrow> False)"
| "conforms v (SObject props closed) =
     (case v of
        PDict d \<Rightarrow>
          (\<forall>(k, req, s)\<in>set props.
             case map_of d k of None \<Rightarrow> \<not> req | Some w \<Rightarrow> conforms w s) \<and>
          (closed \<longrightarrow> (\<forall>k\<in>set (map fst d). k \<in> set (map fst props)))
      | _ \<Rightarrow> False)"

text \<open>Modelled from the spec: the actual shape of a value, as a failure names it.\<close>

fun shape_name :: "pyval \<Rightarrow> string" where
  "shape_name PNone = ''null''"
| "shape_name (PBool b) = ''boolean''"
| "shape_name (PInt i) = ''integer''"
| "shape_name (PStr s) = ''string''"
| "shape_name (PList xs) = ''array''"
| "shape_name (PDict d) = ''object''"

text \<open>Modelled from the spec: the expected shape, as a failure names it.\<close>

fun prim_name :: "prim_type \<Rightarrow> string" where
  "prim_name TString = ''string''"
| "prim_name TBoolean = ''boolean''"
| "prim_name TInteger = ''integer''"

fun schema_name :: "schema \<Rightarrow> string" where
  "schema_name (SPrim t) = prim_name t"
| "schema_name (SArray s) = ''array''"
| "schema_name (SObject props closed) = ''object''"

text \<open>
  Modelled from the spec: the reason of a validation failure, which identifies the
  offending field path and the expected against the actual shape.
\<close>

definition mismatch :: "string \<Rightarrow> string \<Rightarrow> string \<Rightarrow> string" where
  "mismatch path expected actual = path @ '': expected '' @ expected @ '', got '' @ actual"

text \<open>
  Modelled from the spec: the validator reports the first mismatch it meets and does
  not aggregate the others.
\<close>

fun first_failure :: "(string + unit) list \<Rightarrow> string + unit" where
  "first_failure [] = Inr ()"
| "first_failure (Inl e # rs) = Inl e"
| "first_failure (Inr u # rs) = first_failure rs"

text \<open>
  Modelled from the spec: the recursive check of the Schema Validator, depth first and
  in the declared order of the properties; the closure of an object is checked after
  its declared properties. \<open>Inl\<close> carries the reason of the first mismatch.
\<close>

fun validate_at :: "string \<Rightarrow> pyval \<Rightarrow> schema \<Rightarrow> string + unit" where
  "validate_at path v (SPrim t) =
     (if has_type v t then Inr () else Inl (mismatch path (prim_name t) (shape_name v)))"
| "validate_at path v (SArray s) =
     (case v of
        PList xs \<Rightarrow>
          first_failure
            (map (\<lambda>(i, x). validate_at (path @ ''['' @ nat_repr i @ '']'') x s) (enumerate 0 xs))
      | _ \<Rightarrow> Inl (mismatch path ''array'' (shape_name v)))"
| "validate_at path v (SObject props closed) =
     (case v of
        PDict d \<Rightarrow>
          (case first_failure
                  (map (\<lambda>(k, req, s).
                          case map_of d k of
                            None \<Rightarrow>
                              if req then Inl (mismatch (path @ ''.'' @ k) (schema_name s) ''nothing'')
                              else Inr ()
                          | Some w \<Rightarrow> validate_at (path @ ''.'' @ k) w s) props) of
             Inl e \<Rightarrow> Inl e
           | Inr u \<Rightarrow>
               if closed then
                 (case find (\<lambda>k. k \<notin> set (map fst props)) (map fst d) of
                    None \<Rightarrow> Inr ()
                  | Some k \<Rightarrow> Inl (mismatch (path @ ''.'' @ k) ''nothing'' ''a property''))
               else Inr ())
      | _ \<Rightarrow> Inl (mismatch path ''object'' (shape_name v)))"

text \<open>
  Modelled from the spec: \<^verbatim>\<open>validictory.validate(data, schema)\<close>, the Schema Validator
  with the contract \<^verbatim>\<open>validate(value, schema) -> value | ValidationFailure\<close>. The library
  is not part of the repository; a failure is the \<^verbatim>\<open>ValueError\<close> that
  \<^verbatim>\<open>WcCall.validate\<close> catches, here \<open>Inl\<close> of its message.
\<close>

definition validictory_validate :: "pyval \<Rightarrow> schema \<Rightarrow> string + pyval" where
  "validictory_validate data sch =
     (case validate_at ''$'' data sch of Inl e \<Rightarrow> Inl e | Inr u \<Rightarrow> Inr data)"

text \<open>
  \<^verbatim>\<open>WcCall.validate(cls, res)\<close>, with \<^verbatim>\<open>cls._res_schema\<close> as its first argument: it
  returns what the validator returns, and raises \<^verbatim>\<open>ValidationException(str(e))\<close> for the
  \<^verbatim>\<open>ValueError\<close> \<open>e\<close> of the validator.
\<close>

definition WcCall_validate :: "schema \<Rightarrow> pyval \<Rightarrow> py_error + pyval" where
  "WcCall_validate res_schema res =
     (case validictory_validate res res_schema of
        Inl e \<Rightarrow> Inl (ValidationException e)
      | Inr r \<Rightarrow> Inr r)"

section \<open>The log filter, on a store\<close>

text \<open>
  \<^verbatim>\<open>GetLibrarySongs.filter_response\<close> copies its argument and assigns to a key of the
  copy, so what it does to its argument depends on which objects are shared. Lists and
  dictionaries live in a store and are held by reference; \<^verbatim>\<open>None\<close>, booleans, integers
  and strings are immutable and are held as they are. The store is the list of its
  objects, and the address of an object is its position: a new object goes to the end.
\<close>

type_synonym addr = nat

datatype hval = VNone | VBool bool | VInt int | VStr string | VRef addr

datatype hobj = OList "hval list" | ODict "(string \<times> hval) list"

type_synonym heap = "hobj list"

definition alloc :: "heap \<Rightarrow> hobj \<Rightarrow> heap \<times> hval" where
  "alloc h ob = (h @ [ob], VRef (length h))"

text \<open>
  The container a value refers to. An immutable value refers to none; neither does a
  reference beyond the store, which no Python program holds.
\<close>

fun deref :: "heap \<Rightarrow> hval \<Rightarrow> hobj option" where
  "deref h (VRef a) = (if a < length h then Some (h ! a) else None)"
| "deref h _ = None"

text \<open>
  \<^verbatim>\<open>copy.copy(x)\<close>, the shallow copy: a new list or dictionary that holds the items of
  \<open>x\<close> themselves; an immutable value is returned as it is.
\<close>

definition copy_copy :: "heap \<Rightarrow> hval \<Rightarrow> heap \<times> hval" where
  "copy_copy h x = (case deref h x of None \<Rightarrow> (h, x) | Some ob \<Rightarrow> alloc h ob)"

text \<open>\<^verbatim>\<open>x[k]\<close> for a string \<open>k\<close>, on the store.\<close>

definition heap_getitem :: "heap \<Rightarrow> hval \<Rightarrow> string \<Rightarrow> py_error + hval" where
  "heap_getitem h x k =
     (case deref h x of
        Some (ODict d) \<Rightarrow> (case map_of d k of None \<Rightarrow> Inl (KeyError k) | Some v \<Rightarrow> Inr v)
      | _ \<Rightarrow> Inl TypeError)"

text \<open>
  \<^verbatim>\<open>x[k] = v\<close> for a string \<open>k\<close>: the dictionary \<open>x\<close> refers to is updated in place, the
  key keeps its position or is added; every other value refuses the assignment.
\<close>

fun dict_set :: "(string \<times> hval) list \<Rightarrow> string \<Rightarrow> hval \<Rightarrow> (string \<times> hval) list" where
  "dict_set [] k v = [(k, v)]"
| "dict_set ((k', v') # d) k v = (if k' = k then (k, v) # d else (k', v') # dict_set d k v)"

fun heap_setitem :: "heap \<Rightarrow> hval \<Rightarrow> string \<Rightarrow> hval \<Rightarrow> py_error + heap" where
  "heap_setitem h (VRef a) k v =
     (case deref h (VRef a) of
        Some (ODict d) \<Rightarrow> Inr (h[a := ODict (dict_set d k v)])
      | _ \<Rightarrow> Inl TypeError)"
| "heap_setitem h _ k v = Inl TypeError"

text \<open>
  Modelled from the spec: \<^verbatim>\<open>utils.truncate(x, max_els)\<close> of the module
  \<^verbatim>\<open>gmusicapi.utils.utils\<close>, whose source is not at hand. It truncates a large
  collection for the log: of a list longer than \<open>max_els\<close> it keeps the first \<open>max_els\<close>
  entries, in a new list; any other value is returned as it is.
\<close>

definition truncate :: "heap \<Rightarrow> hval \<Rightarrow> nat \<Rightarrow> heap \<times> hval" where
  "truncate h x max_els =
     (case deref h x of
        Some (OList xs) \<Rightarrow> if max_els < length xs then alloc h (OList (take max_els xs)) else (h, x)
      | _ \<Rightarrow> (h, x))"

text \<open>
  \<^verbatim>\<open>GetLibrarySongs.filter_response(msg)\<close>:
  \<^verbatim>\<open>filtered = copy.copy(msg)\<close>,
  \<^verbatim>\<open>filtered['playlist'] = utils.truncate(msg['playlist'], max_els=2)\<close>,
  \<^verbatim>\<open>return filtered\<close>. The helper \<^verbatim>\<open>utils.truncate\<close> is a parameter of the model.
\<close>

definition GetLibrarySongs_filter_response ::
  "(heap \<Rightarrow> hval \<Rightarrow> nat \<Rightarrow> heap \<times> hval) \<Rightarrow> heap \<Rightarrow> hval \<Rightarrow> py_error + heap \<times> hval" where
  "GetLibrarySongs_filter_response utils_truncate h msg =
     (let (h1, filtered) = copy_copy h msg
      in case heap_getitem h1 msg ''playlist'' of
           Inl e \<Rightarrow> Inl e
         | Inr playlist \<Rightarrow>
             let (h2, truncated) = utils_truncate h1 playlist 2
             in case heap_setitem h2 filtered ''playlist'' truncated of
                  Inl e \<Rightarrow> Inl e
                | Inr h3 \<Rightarrow> Inr (h3, filtered))"

text \<open>A value of the store: immutable, or a reference to one of its objects.\<close>

definition in_store :: "heap \<Rightarrow> hval \<Rightarrow> bool" where
  "in_store h v = (case v of VRef a \<Rightarrow> a < length h | _ \<Rightarrow> True)"

text \<open>
  What the frame property asks of the helper: it may add objects to the store, and it
  leaves the objects that are there as they are.
\<close>

definition allocates_only :: "(heap \<Rightarrow> hval \<Rightarrow> nat \<Rightarrow> heap \<times> hval) \<Rightarrow> bool" where
  "allocates_only f = (\<forall>h x n. take (length h) (fst (f h x n)) = h)"

text \<open>
  A store for the examples: a response with three songs in its listing, the listing at
  address 0 and the response at address 1.
\<close>

definition example_heap :: heap where
  "example_heap =
     [OList [VStr ''s1'', VStr ''s2'', VStr ''s3''],
      ODict [(''continuation'', VBool False), (''playlist'', VRef 0)]]"

section \<open>Properties of the success check\<close>

lemma check_success_dict:
  "check_success cls (PDict d) =
     (case map_of d ''success'' of
        None \<Rightarrow> Inr ()
      | Some v \<Rightarrow>
          if truthy v then Inr ()
          else Inl (CallFailure failure_message (class_name cls)))"
  by (simp add: check_success_def split: option.splits)

lemma py_eq_PStr: "py_eq x (PStr k) \<longleftrightarrow> x = PStr k"
  by (cases x) auto

lemma py_in_list: "py_in k (PList xs) = Inr (PStr k \<in> set xs)"
  by (simp add: list_ex_iff py_eq_PStr)

lemma check_success_not_in:
  "py_in ''success'' res = Inr False \<Longrightarrow> check_success cls res = Inr ()"
  by (simp add: check_success_def)

text \<open>
  C2, as stated, fails: the decoded value \<^verbatim>\<open>None\<close> (JSON \<^verbatim>\<open>null\<close>) has no key
  \<^verbatim>\<open>'success'\<close>, and the success check raises on it: \<^verbatim>\<open>'success' in None\<close> is a
  \<^verbatim>\<open>TypeError\<close>. A decoded number does the same.
\<close>

theorem check_success_null_raises:
  "check_success AddPlaylist PNone = Inl TypeError \<and>
   check_success AddPlaylist (PInt 0) = Inl TypeError \<and>
   py_getitem PNone ''success'' \<noteq> Inr (PBool False) \<and>
   check_success AddPlaylist PNone \<noteq> Inr ()"
  by (simp add: check_success_def)

text \<open>
  C2, amended. For every call descriptor \<open>cls\<close>: on a decoded object whose key
  \<^verbatim>\<open>'success'\<close> is mapped to \<^verbatim>\<open>False\<close> the success check raises a \<^verbatim>\<open>CallFailure\<close> whose
  \<^verbatim>\<open>callname\<close> is the name of the descriptor; it raises nothing on a decoded object with
  no key \<^verbatim>\<open>'success'\<close>, on a decoded array with no element \<^verbatim>\<open>'success'\<close> and on a
  decoded string in which \<^verbatim>\<open>'success'\<close> does not occur, that is, on every decoded
  value \<open>res\<close> for which \<^verbatim>\<open>'success' in res\<close> is false.
\<close>

theorem check_success_false_or_absent:
  "(map_of d ''success'' = Some (PBool False) \<longrightarrow>
      check_success cls (PDict d) = Inl (CallFailure failure_message (class_name cls))) \<and>
   (map_of d ''success'' = None \<longrightarrow> check_success cls (PDict d) = Inr ()) \<and>
   (PStr ''success'' \<notin> set xs \<longrightarrow> check_success cls (PList xs) = Inr ()) \<and>
   (\<not> str_contains ''success'' s \<longrightarrow> check_success cls (PStr s) = Inr ()) \<and>
   (py_in ''success'' res = Inr False \<longrightarrow> check_success cls res = Inr ())"
proof (intro conjI impI)
  assume "map_of d ''success'' = Some (PBool False)"
  then show "check_success cls (PDict d) = Inl (CallFailure failure_message (class_name cls))"
    by (simp add: check_success_dict)
next
  assume "map_of d ''success'' = None"
  then show "check_success cls (PDict d) = Inr ()"
    by (simp add: check_success_dict)
next
  assume "PStr ''success'' \<notin> set xs"
  then have "py_in ''success'' (PList xs) = Inr False"
    by (simp only: py_in_list)
  then show "check_success cls (PList xs) = Inr ()"
    by (rule check_success_not_in)
next
  assume "\<not> str_contains ''success'' s"
  then have "py_in ''success'' (PStr s) = Inr False"
    by simp
  then show "check_success cls (PStr s) = Inr ()"
    by (rule check_success_not_in)
next
  assume "py_in ''success'' res = Inr False"
  then show "check_success cls res = Inr ()"
    by (rule check_success_not_in)
qed

theorem check_success_false_or_absent_witness:
  "check_success DeletePlaylist (PDict [(''success'', PBool False)]) =
     Inl (CallFailure failure_message ''DeletePlaylist'') \<and>
   check_success DeletePlaylist (PDict [(''deleteId'', PStr ''p1'')]) = Inr () \<and>
   check_success ReportBadSongMatch (PList [PList [PInt 0], PList []]) = Inr () \<and>
   check_success ReportBadSongMatch (PStr ''ok'') = Inr ()"
proof -
  note dict_false = check_success_false_or_absent
    [of "[(''success'', PBool False)]" DeletePlaylist "[]" "[]" PNone, THEN conjunct1]
  note dict_absent = check_success_false_or_absent
    [of "[(''deleteId'', PStr ''p1'')]" DeletePlaylist "[]" "[]" PNone,
      THEN conjunct2, THEN conjunct1]
  note array = check_success_false_or_absent
    [of "[]" ReportBadSongMatch "[PList [PInt 0], PList []]" "''ok''" PNone,
      THEN conjunct2, THEN conjunct2, THEN conjunct1]
  note str = check_success_false_or_absent
    [of "[]" ReportBadSongMatch "[]" "''ok''" PNone,
      THEN conjunct2, THEN conjunct2, THEN conjunct2, THEN conjunct1]
  show ?thesis
    using dict_false dict_absent array str by simp
qed

text \<open>
  C9. The success check raises a \<^verbatim>\<open>CallFailure\<close> for every decoded object whose key
  \<^verbatim>\<open>'success'\<close> is mapped to a falsy value (\<^verbatim>\<open>False\<close>, \<^verbatim>\<open>0\<close>, the empty string and
  \<^verbatim>\<open>None\<close> among them), and raises nothing when the key is mapped to a truthy value.
\<close>

theorem check_success_truth_value:
  "(map_of d ''success'' = Some v \<and> \<not> truthy v \<longrightarrow>
      check_success cls (PDict d) = Inl (CallFailure failure_message (class_name cls))) \<and>
   (map_of d ''success'' = Some v \<and> truthy v \<longrightarrow> check_success cls (PDict d) = Inr ()) \<and>
   \<not> truthy (PBool False) \<and> \<not> truthy (PInt 0) \<and> \<not> truthy (PStr []) \<and> \<not> truthy PNone"
  by (simp add: check_success_dict)

theorem check_success_truth_value_witness:
  "check_success AddPlaylist (PDict [(''id'', PStr ''x''), (''success'', PInt 0)]) =
     Inl (CallFailure failure_message ''AddPlaylist'') \<and>
   check_success AddPlaylist (PDict [(''id'', PStr ''x''), (''success'', PStr ''no'')]) = Inr ()"
  using check_success_truth_value [of "[(''id'', PStr ''x''), (''success'', PInt 0)]" "PInt 0" AddPlaylist]
    check_success_truth_value
      [of "[(''id'', PStr ''x''), (''success'', PStr ''no'')]" "PStr ''no''" AddPlaylist]
  by simp

section \<open>Properties of the literal response\<close>

lemma py_eq_zero: "py_eq x (PInt 0) \<longleftrightarrow> x = PInt 0 \<or> x = PBool False"
  by (cases x) auto

lemma py_eq_Nil: "py_eq x (PList []) \<longleftrightarrow> x = PList []"
  by (cases x) auto

lemma py_eq_singleton: "py_eq x (PList [y]) \<longleftrightarrow> (\<exists>z. x = PList [z] \<and> py_eq z y)"
  by (cases x) (auto simp: list_all2_Cons2)

text \<open>
  Among the values of the model, two are equal to the literal: the literal itself, and
  the list that holds \<^verbatim>\<open>False\<close> in the place of \<^verbatim>\<open>0\<close>.
\<close>

lemma py_eq_expected_response:
  "py_eq res expected_response \<longleftrightarrow>
     res = PList [PList [PInt 0], PList []] \<or> res = PList [PList [PBool False], PList []]"
  by (cases res)
    (auto simp: expected_response_def list_all2_Cons2 py_eq_zero py_eq_Nil py_eq_singleton)

lemma expected_response_message:
  "''response != '' @ py_repr expected_response = ''response != [[0], []]''"
  by (simp add: expected_response_def int_repr_def)

text \<open>
  C3, as stated, fails: the decoded value \<^verbatim>\<open>[[False], []]\<close> is not the literal
  \<^verbatim>\<open>[[0], []]\<close>, and \<^verbatim>\<open>ReportBadSongMatch.validate\<close> accepts it, because the comparison
  is Python's \<^verbatim>\<open>!=\<close> and \<^verbatim>\<open>False == 0\<close>.
\<close>

theorem ReportBadSongMatch_validate_accepts_False:
  "ReportBadSongMatch_validate (PList [PList [PBool False], PList []]) = Inr PNone \<and>
   PList [PList [PBool False], PList []] \<noteq> expected_response"
  by (simp add: ReportBadSongMatch_validate_def py_ne_def expected_response_def)

text \<open>
  C3, amended. \<^verbatim>\<open>ReportBadSongMatch.validate\<close> succeeds exactly when its argument is
  equal to the expected literal \<^verbatim>\<open>[[0], []]\<close> in the sense of Python's \<^verbatim>\<open>==\<close>; for every
  other value it raises a \<^verbatim>\<open>ValidationException\<close> whose message is
  \<^verbatim>\<open>response != [[0], []]\<close>. The literal itself is accepted and \<^verbatim>\<open>[[0], [1]]\<close> is
  refused.
\<close>

theorem ReportBadSongMatch_validate_py_eq:
  "ReportBadSongMatch_validate res =
     (if py_eq res expected_response then Inr PNone
      else Inl (ValidationException ''response != [[0], []]'')) \<and>
   py_eq expected_response expected_response \<and>
   \<not> py_eq (PList [PList [PInt 0], PList [PInt 1]]) expected_response"
  using expected_response_message
  by (simp add: ReportBadSongMatch_validate_def py_ne_def py_eq_expected_response)
    (simp add: expected_response_def)

theorem ReportBadSongMatch_validate_py_eq_witness:
  "ReportBadSongMatch_validate (PList [PList [PInt 0], PList []]) = Inr PNone \<and>
   ReportBadSongMatch_validate (PList [PList [PInt 0], PList [PInt 1]]) =
     Inl (ValidationException ''response != [[0], []]'')"
  using ReportBadSongMatch_validate_py_eq [of "PList [PList [PInt 0], PList []]"]
    ReportBadSongMatch_validate_py_eq [of "PList [PList [PInt 0], PList [PInt 1]]"]
  by (simp add: expected_response_def)

section \<open>Properties of the request bodies\<close>

text \<open>
  C4. For every playlist id, list of song ids and list of entry ids,
  \<^verbatim>\<open>ChangePlaylistOrder.dynamic_data\<close> called with both anchors left out builds the
  same body as the call with both anchors set to the empty string, and the object it
  serializes holds \<^verbatim>\<open>afterEntryId = ""\<close> and \<^verbatim>\<open>beforeEntryId = ""\<close>.
\<close>

theorem ChangePlaylistOrder_anchors_omitted:
  "ChangePlaylistOrder_dynamic_data env playlist_id song_ids_moving entry_ids_moving None None =
     ChangePlaylistOrder_dynamic_data env playlist_id song_ids_moving entry_ids_moving
       (Some (PStr [])) (Some (PStr [])) \<and>
   ChangePlaylistOrder_dynamic_data env playlist_id song_ids_moving entry_ids_moving None None =
     PDict [(''json'', PStr (json_dumps env
       (PDict [(''playlistId'', playlist_id),
               (''movedSongIds'', song_ids_moving),
               (''movedEntryIds'', entry_ids_moving),
               (''afterEntryId'', PStr []),
               (''beforeEntryId'', PStr [])])))]"
  by (simp add: ChangePlaylistOrder_dynamic_data_def with_default_def is_None_def Let_def)

theorem ChangePlaylistOrder_anchors_omitted_witness:
  \<open>ChangePlaylistOrder_dynamic_data module_env (PStr ''p'') (PList [PStr ''s'']) (PList [PStr ''e''])
       (Some (PStr [])) (Some (PStr [])) =
     PDict [(''json'', PStr
       ''{"playlistId": "p", "movedSongIds": ["s"], "movedEntryIds": ["e"], "afterEntryId": "", "beforeEntryId": ""}'')]\<close>
proof -
  note body = ChangePlaylistOrder_anchors_omitted
    [of module_env "PStr ''p''" "PList [PStr ''s'']" "PList [PStr ''e'']"]
  show ?thesis
    unfolding body [THEN conjunct1, symmetric] body [THEN conjunct2]
    by (simp add: module_env_def json_string_def json_escape_char_def)
qed

text \<open>
  C5, as stated, fails: for the continuation token \<^verbatim>\<open>""\<close> the body is the
  serialization of \<^verbatim>\<open>{}\<close>, not that of \<^verbatim>\<open>{"continuationToken": ""}\<close>.
\<close>

theorem GetLibrarySongs_empty_token_body:
  \<open>GetLibrarySongs_dynamic_data module_env (Some (PStr [])) = PDict [(''json'', PStr ''{}'')] \<and>
   PDict [(''json'', PStr (json_dumps module_env (PDict [(''continuationToken'', PStr [])])))] =
     PDict [(''json'', PStr ''{"continuationToken": ""}'')] \<and>
   GetLibrarySongs_dynamic_data module_env (Some (PStr [])) \<noteq>
     PDict [(''json'', PStr (json_dumps module_env (PDict [(''continuationToken'', PStr [])])))]\<close>
  by (simp add: GetLibrarySongs_dynamic_data_def with_default_def module_env_def
      json_string_def json_escape_char_def)

text \<open>
  C5, amended. \<^verbatim>\<open>GetLibrarySongs.dynamic_data\<close> with the continuation token left out
  builds the serialization of the empty object \<^verbatim>\<open>{}\<close>, and with a continuation token
  \<open>T\<close> that is truthy (for a string: not empty) it builds the serialization of
  \<^verbatim>\<open>{"continuationToken": T}\<close>.
\<close>

theorem GetLibrarySongs_dynamic_data_body:
  "GetLibrarySongs_dynamic_data env None = PDict [(''json'', PStr (json_dumps env (PDict [])))] \<and>
   (truthy T \<longrightarrow>
      GetLibrarySongs_dynamic_data env (Some T) =
        PDict [(''json'', PStr (json_dumps env (PDict [(''continuationToken'', T)])))])"
  by (simp add: GetLibrarySongs_dynamic_data_def with_default_def)

theorem GetLibrarySongs_dynamic_data_body_witness:
  \<open>GetLibrarySongs_dynamic_data module_env None = PDict [(''json'', PStr ''{}'')] \<and>
   GetLibrarySongs_dynamic_data module_env (Some (PStr ''T1'')) =
     PDict [(''json'', PStr ''{"continuationToken": "T1"}'')]\<close>
  using GetLibrarySongs_dynamic_data_body [of module_env "PStr ''T1''"]
  by (simp add: module_env_def json_string_def json_escape_char_def)

text \<open>
  C10. \<^verbatim>\<open>GetLibrarySongs.dynamic_data\<close> treats a falsy continuation token, the empty
  string among them, as it treats a token left out: the body is the serialization of
  \<^verbatim>\<open>{}\<close>, with no \<^verbatim>\<open>continuationToken\<close> field.
\<close>

theorem GetLibrarySongs_falsy_token:
  "(\<not> truthy T \<longrightarrow>
      GetLibrarySongs_dynamic_data env (Some T) = GetLibrarySongs_dynamic_data env None \<and>
      GetLibrarySongs_dynamic_data env (Some T) =
        PDict [(''json'', PStr (json_dumps env (PDict [])))]) \<and>
   \<not> truthy (PStr [])"
  by (simp add: GetLibrarySongs_dynamic_data_def with_default_def)

theorem GetLibrarySongs_falsy_token_witness:
  "GetLibrarySongs_dynamic_data module_env (Some (PStr [])) =
     GetLibrarySongs_dynamic_data module_env None \<and>
   GetLibrarySongs_dynamic_data module_env (Some (PStr [])) = PDict [(''json'', PStr ''{}'')]"
proof -
  have falsy: "\<not> truthy (PStr [])"
    by simp
  have "json_dumps module_env (PDict []) = ''{}''"
    by (simp add: module_env_def)
  with GetLibrarySongs_falsy_token [of "PStr []" module_env] falsy show ?thesis
    by auto
qed

section \<open>Properties of the validation\<close>

lemma first_failure_ok: "first_failure rs = Inr () \<longleftrightarrow> (\<forall>r\<in>set rs. r = Inr ())"
  by (induction rs rule: first_failure.induct) auto

lemma find_None_all: "find P xs = None \<longleftrightarrow> (\<forall>x\<in>set xs. \<not> P x)"
  by (induction xs) auto

lemma ball_enumerate: "(\<forall>p\<in>set (enumerate n xs). Q (snd p)) \<longleftrightarrow> (\<forall>x\<in>set xs. Q x)"
proof -
  have "set xs = snd ` set (enumerate n xs)"
    by (simp flip: set_map)
  then show ?thesis
    by simp
qed

lemma validate_at_object:
  "validate_at path (PDict d) (SObject props closed) = Inr () \<longleftrightarrow>
     first_failure
       (map (\<lambda>(k, req, s).
               case map_of d k of
                 None \<Rightarrow>
                   if req then Inl (mismatch (path @ ''.'' @ k) (schema_name s) ''nothing'')
                   else Inr ()
               | Some w \<Rightarrow> validate_at (path @ ''.'' @ k) w s) props) = Inr () \<and>
     (closed \<longrightarrow> find (\<lambda>k. k \<notin> set (map fst props)) (map fst d) = None)"
  by (simp split: sum.splits option.splits)

text \<open>The check succeeds on exactly the values that conform to the schema.\<close>

lemma validate_at_conforms: "validate_at path v s = Inr () \<longleftrightarrow> conforms v s"
proof (induction path v s rule: validate_at.induct)
  case (1 path v t)
  then show ?case by simp
next
  case (2 path v s)
  show ?case
  proof (cases v)
    case (PList xs)
    have item: "validate_at (path @ ''['' @ nat_repr i @ '']'') x s = Inr () \<longleftrightarrow> conforms x s"
      if "(i, x) \<in> set (enumerate 0 xs)" for i x
      using 2 [OF PList that refl] .
    have "(\<forall>p\<in>set (enumerate 0 xs).
             (case p of (i, x) \<Rightarrow> validate_at (path @ ''['' @ nat_repr i @ '']'') x s) = Inr ()) \<longleftrightarrow>
          (\<forall>p\<in>set (enumerate 0 xs). conforms (snd p) s)"
      using item by (intro ball_cong refl) (simp add: case_prod_beta)
    also have "\<dots> \<longleftrightarrow> (\<forall>x\<in>set xs. conforms x s)"
      by (rule ball_enumerate)
    finally show ?thesis
      using PList by (simp add: first_failure_ok)
  qed simp_all
next
  case (3 path v props closed)
  show ?case
  proof (cases v)
    case (PDict d)
    have entry: "validate_at (path @ ''.'' @ k) w s = Inr () \<longleftrightarrow> conforms w s"
      if "(k, req, s) \<in> set props" and "map_of d k = Some w" for k req s w
      using 3 [OF PDict that(1) refl refl that(2)] .
    have entries: "(\<forall>p\<in>set props.
             (case p of (k, req, s) \<Rightarrow>
                case map_of d k of
                  None \<Rightarrow>
                    if req then Inl (mismatch (path @ ''.'' @ k) (schema_name s) ''nothing'')
                    else Inr ()
                | Some w \<Rightarrow> validate_at (path @ ''.'' @ k) w s) = Inr ()) \<longleftrightarrow>
          (\<forall>p\<in>set props.
             case p of (k, req, s) \<Rightarrow>
               case map_of d k of None \<Rightarrow> \<not> req | Some w \<Rightarrow> conforms w s)"
      using entry by (intro ball_cong refl) (auto split: option.splits)
    have closure: "find (\<lambda>k. k \<notin> set (map fst props)) (map fst d) = None \<longleftrightarrow>
        (\<forall>k\<in>set (map fst d). k \<in> set (map fst props))"
      by (simp add: find_None_all)
    have "validate_at path (PDict d) (SObject props closed) = Inr () \<longleftrightarrow>
        conforms (PDict d) (SObject props closed)"
      unfolding validate_at_object first_failure_ok closure
      by (simp add: entries)
    then show ?thesis
      using PDict by simp
  qed simp_all
qed

lemma WcCall_validate_cases:
  "WcCall_validate s v =
     (if conforms v s then Inr v
      else Inl (ValidationException (case validate_at ''$'' v s of Inl e \<Rightarrow> e | Inr u \<Rightarrow> [])))"
proof (cases "validate_at ''$'' v s")
  case (Inl e)
  then have "\<not> conforms v s"
    using validate_at_conforms [of "''$''" v s] by simp
  with Inl show ?thesis
    by (simp add: WcCall_validate_def validictory_validate_def)
next
  case (Inr u)
  then have "conforms v s"
    using validate_at_conforms [of "''$''" v s] by simp
  with Inr show ?thesis
    by (simp add: WcCall_validate_def validictory_validate_def)
qed

text \<open>
  C1. For every schema \<open>S\<close> and every value \<open>V\<close> that conforms to \<open>S\<close>,
  \<^verbatim>\<open>WcCall.validate\<close> with \<^verbatim>\<open>cls._res_schema = S\<close>, applied to \<open>V\<close>, succeeds and returns
  \<open>V\<close> unchanged.
\<close>

theorem WcCall_validate_conforming:
  assumes "conforms V S"
  shows "WcCall_validate S V = Inr V"
  using assms by (simp add: WcCall_validate_cases)

theorem WcCall_validate_conforming_witness:
  "conforms (PDict [(''id'', PStr ''p1''), (''title'', PStr ''mix''), (''success'', PBool True)])
     AddPlaylist_res_schema \<and>
   WcCall_validate AddPlaylist_res_schema
     (PDict [(''id'', PStr ''p1''), (''title'', PStr ''mix''), (''success'', PBool True)]) =
   Inr (PDict [(''id'', PStr ''p1''), (''title'', PStr ''mix''), (''success'', PBool True)])"
proof -
  have ok: "conforms (PDict [(''id'', PStr ''p1''), (''title'', PStr ''mix''), (''success'', PBool True)])
      AddPlaylist_res_schema"
    by (simp add: AddPlaylist_res_schema_def)
  show ?thesis
    using ok WcCall_validate_conforming [OF ok] by simp
qed

text \<open>
  C6. For every schema that declares closure and every value that holds a key not
  declared among the properties of the schema, \<^verbatim>\<open>WcCall.validate\<close> raises a
  \<^verbatim>\<open>ValidationException\<close> and does not succeed.
\<close>

theorem WcCall_validate_closed_schema:
  assumes "k \<in> set (map fst d)" and "k \<notin> set (map fst props)"
  shows "\<exists>msg. WcCall_validate (SObject props True) (PDict d) = Inl (ValidationException msg)"
proof -
  have "\<not> conforms (PDict d) (SObject props True)"
    using assms by auto
  then show ?thesis
    by (simp add: WcCall_validate_cases)
qed

theorem WcCall_validate_closed_schema_witness:
  "WcCall_validate AddPlaylist_res_schema
     (PDict [(''id'', PStr ''p1''), (''title'', PStr ''mix''), (''success'', PBool True),
             (''owner'', PStr ''me'')]) =
   Inl (ValidationException ''$.owner: expected nothing, got a property'')"
proof -
  have "\<exists>msg. WcCall_validate AddPlaylist_res_schema
     (PDict [(''id'', PStr ''p1''), (''title'', PStr ''mix''), (''success'', PBool True),
             (''owner'', PStr ''me'')]) = Inl (ValidationException msg)"
    unfolding AddPlaylist_res_schema_def
    by (rule WcCall_validate_closed_schema [of "''owner''"]) simp_all
  moreover have "validate_at ''$''
     (PDict [(''id'', PStr ''p1''), (''title'', PStr ''mix''), (''success'', PBool True),
             (''owner'', PStr ''me'')]) AddPlaylist_res_schema =
     Inl ''$.owner: expected nothing, got a property''"
    by (simp add: AddPlaylist_res_schema_def mismatch_def)
  ultimately show ?thesis
    by (auto simp: WcCall_validate_def validictory_validate_def)
qed

section \<open>Properties of the log filter\<close>

lemma truncate_allocates_only: "allocates_only truncate"
  by (auto simp: allocates_only_def truncate_def alloc_def split: option.splits hobj.splits)

lemma deref_Some: "deref h x = Some ob \<longleftrightarrow> (\<exists>a. x = VRef a \<and> a < length h \<and> h ! a = ob)"
  by (cases x) auto

lemma deref_append: "deref h x = Some ob \<Longrightarrow> deref (h @ ext) x = Some ob"
  by (auto simp: deref_Some nth_append)

lemma deref_in_store: "in_store h x \<Longrightarrow> deref (h @ ext) x = deref h x"
  by (cases x) (auto simp: in_store_def nth_append)

lemma allocates_onlyD:
  assumes "allocates_only f"
  obtains ext where "fst (f h x n) = h @ ext"
proof -
  have "take (length h) (fst (f h x n)) = h"
    using assms by (simp add: allocates_only_def)
  then have "fst (f h x n) = h @ drop (length h) (fst (f h x n))"
    by (metis append_take_drop_id)
  then show ?thesis
    using that by blast
qed

text \<open>
  C7. For every response \<open>msg\<close> that is a dictionary with a \<^verbatim>\<open>'playlist'\<close> entry,
  \<^verbatim>\<open>GetLibrarySongs.filter_response\<close> returns, and leaves every object of the store as
  it was: afterwards \<open>msg\<close> is the same dictionary, its \<^verbatim>\<open>'playlist'\<close> entry is the same
  value, and what that value refers to (the full list) is what it was. The value
  returned is a new object, not \<open>msg\<close>. The helper \<^verbatim>\<open>utils.truncate\<close> is any function
  that leaves the objects of the store as they are.
\<close>

theorem filter_response_leaves_msg_unchanged:
  assumes "allocates_only utils_truncate"
    and "deref h msg = Some (ODict d)"
    and "map_of d ''playlist'' = Some playlist"
    and "in_store h playlist"
  shows "\<exists>h' filtered.
    GetLibrarySongs_filter_response utils_truncate h msg = Inr (h', filtered) \<and>
    take (length h) h' = h \<and>
    deref h' msg = Some (ODict d) \<and>
    heap_getitem h' msg ''playlist'' = Inr playlist \<and>
    deref h' playlist = deref h playlist \<and>
    filtered \<noteq> msg"
proof -
  obtain a where msg: "msg = VRef a" "a < length h" "h ! a = ODict d"
    using assms(2) by (auto simp: deref_Some)
  define h1 where "h1 = h @ [ODict d]"
  have copy: "copy_copy h msg = (h1, VRef (length h))"
    using assms(2) by (simp add: copy_copy_def alloc_def h1_def)
  have get: "heap_getitem h1 msg ''playlist'' = Inr playlist"
    using deref_append [OF assms(2), of "[ODict d]"] assms(3)
    by (simp add: heap_getitem_def h1_def)
  obtain ext where ext: "fst (utils_truncate h1 playlist 2) = h1 @ ext"
    using assms(1) by (rule allocates_onlyD)
  define h2 where "h2 = h1 @ ext"
  define truncated where "truncated = snd (utils_truncate h1 playlist 2)"
  have trunc: "utils_truncate h1 playlist 2 = (h2, truncated)"
    using ext by (simp add: h2_def truncated_def prod_eq_iff)
  define h3 where "h3 = h @ [ODict (dict_set d ''playlist'' truncated)] @ ext"
  have set: "heap_setitem h2 (VRef (length h)) ''playlist'' truncated = Inr h3"
    by (simp add: h2_def h1_def h3_def nth_append list_update_append)
  have run: "GetLibrarySongs_filter_response utils_truncate h msg = Inr (h3, VRef (length h))"
    by (simp add: GetLibrarySongs_filter_response_def copy get trunc set
        del: heap_setitem.simps)
  have frame: "take (length h) h3 = h"
    by (simp add: h3_def)
  have msg': "deref h3 msg = Some (ODict d)"
    unfolding h3_def using assms(2) by (rule deref_append)
  have listing: "deref h3 playlist = deref h playlist"
    unfolding h3_def using assms(4) by (rule deref_in_store)
  have get': "heap_getitem h3 msg ''playlist'' = Inr playlist"
    using msg' assms(3) by (simp add: heap_getitem_def)
  have "VRef (length h) \<noteq> msg"
    using msg by auto
  with run frame msg' listing get' show ?thesis
    by blast
qed

text \<open>
  On the example store, with the helper as the spec describes it: the copy goes to
  address 2 and the truncated listing to address 3.
\<close>

lemma filter_response_example:
  "GetLibrarySongs_filter_response truncate example_heap (VRef 1) =
     Inr (example_heap @
            [ODict [(''continuation'', VBool False), (''playlist'', VRef 3)],
             OList [VStr ''s1'', VStr ''s2'']],
          VRef 2)"
  by (simp add: GetLibrarySongs_filter_response_def example_heap_def copy_copy_def alloc_def
      heap_getitem_def truncate_def)

theorem filter_response_leaves_msg_unchanged_witness:
  "allocates_only truncate \<and>
   deref example_heap (VRef 1) =
     Some (ODict [(''continuation'', VBool False), (''playlist'', VRef 0)]) \<and>
   deref example_heap (VRef 0) = Some (OList [VStr ''s1'', VStr ''s2'', VStr ''s3'']) \<and>
   (\<exists>h' filtered.
      GetLibrarySongs_filter_response truncate example_heap (VRef 1) = Inr (h', filtered) \<and>
      take (length example_heap) h' = example_heap \<and>
      deref h' (VRef 1) =
        Some (ODict [(''continuation'', VBool False), (''playlist'', VRef 0)]) \<and>
      heap_getitem h' (VRef 1) ''playlist'' = Inr (VRef 0) \<and>
      deref h' (VRef 0) = Some (OList [VStr ''s1'', VStr ''s2'', VStr ''s3'']) \<and>
      filtered \<noteq> VRef 1)"
proof -
  have msg: "deref example_heap (VRef 1) =
      Some (ODict [(''continuation'', VBool False), (''playlist'', VRef 0)])"
    by (simp add: example_heap_def)
  have entry: "map_of [(''continuation'', VBool False), (''playlist'', VRef 0)] ''playlist'' =
      Some (VRef 0)"
    by simp
  have listing: "deref example_heap (VRef 0) = Some (OList [VStr ''s1'', VStr ''s2'', VStr ''s3''])"
    by (simp add: example_heap_def)
  have inside: "in_store example_heap (VRef 0)"
    by (simp add: in_store_def example_heap_def)
  show ?thesis
    using truncate_allocates_only msg listing
      filter_response_leaves_msg_unchanged [OF truncate_allocates_only msg entry inside]
    by auto
qed

end
